theory Spec2Isabelle
  imports Complex_Main "HOL-Library.Multiset"
begin

section \<open>The address check of the generated page (\<open>checkIfInDistrict\<close>)\<close>

text \<open>
  The page that \<open>create_ky6_map\<close> writes carries a script (source lines 277 to 427). Its
  function \<open>checkIfInDistrict(lat, lon)\<close> (lines 384 to 398) is the only containment test of
  the repository. JavaScript numbers are doubles; the function only compares them, so they
  are modelled as rationals (a comparison of two finite doubles is the comparison of the
  rationals they denote; the four literals are taken at their decimal value, which moves each
  edge of the rectangle by less than one part in \<open>10\<^sup>1\<^sup>5\<close>). A coordinate that is not a
  number, for which the function answers no, is left out. A point is written \<open>(x, y)\<close>, that
  is (longitude, latitude).
\<close>

type_synonym point = "rat \<times> rat"




subsection \<open>The exact test the specification asks for\<close>













section \<open>The overlay run (\<open>create_ky6_map\<close>)\<close>

subsection \<open>The geometry library as a parameter\<close>

text \<open>
  Every geometric operation of the script is a call into shapely (GEOS). The library is not
  code of the repository: the run is modelled over any value of the record below, one field
  per operation the script calls, over any type \<open>'g\<close> of geometries. An operation the script
  wraps in \<open>try\<close> or whose failure the specification speaks of returns a sum, \<open>Inl\<close> being
  the exception raised. \<open>contains_point\<close> is shapely's point containment; the script does not
  call it, the claims about label anchors are stated with it.
\<close>

datatype exn = GEOSException string

record 'g shapely =
  intersects :: "'g \<Rightarrow> 'g \<Rightarrow> bool"
  intersection :: "'g \<Rightarrow> 'g \<Rightarrow> exn + 'g"
  difference :: "'g \<Rightarrow> 'g \<Rightarrow> exn + 'g"
  is_empty_geom :: "'g \<Rightarrow> bool"
  is_valid :: "'g \<Rightarrow> bool"
  buffer0 :: "'g \<Rightarrow> exn + 'g"
  geom_type :: "'g \<Rightarrow> string"
  centroid :: "'g \<Rightarrow> exn + point"
  representative_point :: "'g \<Rightarrow> exn + point"
  contains_point :: "'g \<Rightarrow> point \<Rightarrow> bool"

subsection \<open>Data\<close>

text \<open>
  A row of the district table and a row of the county table (the columns the script reads).
\<close>

record 'g feature =
  STATEFP :: string
  geometry :: "'g"

record 'g district = "'g feature" +
  CD119FP :: string

record 'g county = "'g feature" +
  NAME :: string

text \<open>
  What the script adds to the map, in the order of the calls to \<open>add_to\<close>. The constructor
  is the role the styling gives the layer: \<open>Excluded\<close> is a grey GeoJson layer (fill
  \<open>#808080\<close>, tooltip "NAME County (Outside District)", lines 142 to 152 and 163 to 173),
  \<open>Boundary\<close> the outline of the district rows (no fill, lines 179 to 188), \<open>Included\<close> a
  blue GeoJson layer with the county's name (lines 204 to 231), \<open>Label\<close> the marker that
  carries the name, at \<open>[y, x]\<close> of its point (lines 241 to 247).
\<close>

datatype 'g layer =
    Excluded "'g" string
  | Boundary "'g list"
  | Included "'g" string
  | Label point string

text \<open>The map under construction, and the lines printed so far.\<close>

record 'g run_state =
  layers :: "'g layer list"
  printed :: "string list"

text \<open>
  How a run can end without a map: the early return of lines 65 to 69 (after printing the
  district codes of the state), an exception of the library that no handler of the script
  catches, or the clipped table having no geometry column (lines 94 and 97, see below).
\<close>

datatype error =
    MissingRegion "string list"
  | Uncaught exn
  | NoGeometryColumn

definition message :: "exn \<Rightarrow> string" where
  "message e = (case e of GEOSException s \<Rightarrow> s)"

subsection \<open>Selecting the district and routing the counties (lines 63 to 76 and 137)\<close>

definition ky6_district :: "'g district list \<Rightarrow> 'g district list" where
  "ky6_district districts = filter (\<lambda>d. STATEFP d = ''21'' \<and> CD119FP d = ''06'') districts"

definition ky_counties :: "'g county list \<Rightarrow> 'g county list" where
  "ky_counties counties = filter (\<lambda>c. STATEFP c = ''21'') counties"

definition intersecting_counties :: "'g shapely \<Rightarrow> 'g \<Rightarrow> 'g county list \<Rightarrow> 'g county list" where
  "intersecting_counties lib ky6_geom kc = filter (\<lambda>c. intersects lib (geometry c) ky6_geom) kc"

definition outside_counties :: "'g shapely \<Rightarrow> 'g \<Rightarrow> 'g county list \<Rightarrow> 'g county list" where
  "outside_counties lib ky6_geom kc = filter (\<lambda>c. \<not> intersects lib (geometry c) ky6_geom) kc"

subsection \<open>Clipping (lines 79 to 91) and repair (lines 94 to 97)\<close>

text \<open>
  One pass of the loop of lines 80 to 91: the state is the table \<open>clipped_counties\<close> and the
  lines printed. A county whose intersection is empty or invalid is skipped with a message,
  one whose intersection raises is skipped with the message of the handler.
\<close>

definition clip_step ::
  "'g shapely \<Rightarrow> 'g \<Rightarrow> 'g county \<Rightarrow> 'g county list \<times> string list \<Rightarrow> 'g county list \<times> string list" where
  "clip_step lib ky6_geom c acc =
     (case intersection lib (geometry c) ky6_geom of
        Inr clipped_geom \<Rightarrow>
          if \<not> is_empty_geom lib clipped_geom \<and> is_valid lib clipped_geom
          then (fst acc @ [c\<lparr>geometry := clipped_geom\<rparr>], snd acc)
          else (fst acc, snd acc @ [''Skipping '' @ NAME c @ '' County due to geometry issues''])
      | Inl e \<Rightarrow>
          (fst acc, snd acc @ [''Error processing '' @ NAME c @ '' County: '' @ message e]))"

definition clip_loop ::
  "'g shapely \<Rightarrow> 'g \<Rightarrow> 'g county list \<Rightarrow> 'g county list \<times> string list" where
  "clip_loop lib ky6_geom ic = fold (clip_step lib ky6_geom) ic ([], [])"

text \<open>
  Line 97 applies \<open>buffer(0)\<close> to the whole geometry column at once, outside every handler:
  the first exception of the library ends the run.
\<close>

fun buffer_all :: "'g shapely \<Rightarrow> 'g county list \<Rightarrow> exn + 'g county list" where
  "buffer_all lib [] = Inr []"
| "buffer_all lib (r # rs) =
     (case buffer0 lib (geometry r) of
        Inl e \<Rightarrow> Inl e
      | Inr g \<Rightarrow> (case buffer_all lib rs of Inl e \<Rightarrow> Inl e | Inr rs' \<Rightarrow> Inr (r\<lparr>geometry := g\<rparr> # rs')))"

text \<open>
  \<open>clipped_counties\<close> starts as \<open>gpd.GeoDataFrame()\<close>, a table with no column at all, and
  gets its columns from the first row the loop appends. When the loop appends no row, the
  table still has no \<open>geometry\<close> column at line 94, and the run ends there (geopandas refuses
  a coordinate system for a table without geometry) or at line 97 (\<open>KeyError\<close> on
  \<open>clipped_counties['geometry']\<close>).
\<close>

definition repair :: "'g shapely \<Rightarrow> 'g county list \<Rightarrow> error + 'g county list" where
  "repair lib clipped_counties =
     (if clipped_counties = [] then Inl NoGeometryColumn
      else case buffer_all lib clipped_counties of
             Inl e \<Rightarrow> Inl (Uncaught e)
           | Inr rows \<Rightarrow> Inr rows)"

subsection \<open>Drawing (lines 137 to 251)\<close>

text \<open>Lines 140 to 155: every county outside the district, whole, in grey.\<close>

definition outside_step :: "'g county \<Rightarrow> 'g run_state \<Rightarrow> 'g run_state" where
  "outside_step c m = m\<lparr>layers := layers m @ [Excluded (geometry c) (NAME c)]\<rparr>"

text \<open>
  Lines 158 to 176: of every intersecting county, the part outside the district in grey,
  when that part is not empty; a difference that raises is printed and skipped.
\<close>

definition partial_step :: "'g shapely \<Rightarrow> 'g \<Rightarrow> 'g county \<Rightarrow> 'g run_state \<Rightarrow> 'g run_state" where
  "partial_step lib ky6_geom c m =
     (case difference lib (geometry c) ky6_geom of
        Inr outside_part \<Rightarrow>
          if \<not> is_empty_geom lib outside_part
          then m\<lparr>layers := layers m @ [Excluded outside_part (NAME c)]\<rparr>
          else m
      | Inl e \<Rightarrow>
          m\<lparr>printed := printed m @ [''Error adding outside part of '' @ NAME c @ '': '' @ message e]\<rparr>)"

text \<open>
  Lines 234 to 239: the point of the label. \<open>None\<close> is the \<open>continue\<close> of line 239.
\<close>

definition anchor :: "'g shapely \<Rightarrow> 'g \<Rightarrow> exn + point option" where
  "anchor lib g =
     (if geom_type lib g = ''Polygon'' then
        (case centroid lib g of Inl e \<Rightarrow> Inl e | Inr p \<Rightarrow> Inr (Some p))
      else if geom_type lib g = ''MultiPolygon'' then
        (case representative_point lib g of Inl e \<Rightarrow> Inl e | Inr p \<Rightarrow> Inr (Some p))
      else Inr None)"

text \<open>
  Lines 191 to 251: a row of the repaired table. An empty geometry is skipped before
  anything is drawn; otherwise the layer is added first (line 231), then the label; an
  exception while the label is computed is caught and printed (lines 249 to 251), the layer
  already being on the map.
\<close>

definition county_step :: "'g shapely \<Rightarrow> 'g county \<Rightarrow> 'g run_state \<Rightarrow> 'g run_state" where
  "county_step lib county m =
     (if is_empty_geom lib (geometry county)
      then m\<lparr>printed := printed m @ [''Skipping '' @ NAME county @ '' County - invalid geometry'']\<rparr>
      else
        let m1 = m\<lparr>layers := layers m @ [Included (geometry county) (NAME county)]\<rparr> in
        case anchor lib (geometry county) of
          Inr (Some p) \<Rightarrow> m1\<lparr>layers := layers m1 @ [Label p (NAME county)]\<rparr>
        | Inr None \<Rightarrow> m1
        | Inl e \<Rightarrow>
            m1\<lparr>printed := printed m1 @
              [''Error adding '' @ NAME county @ '' County to map: '' @ message e]\<rparr>)"

subsection \<open>The run\<close>

text \<open>The distinct values of a column, in the order of their first occurrence.\<close>

definition unique :: "'a list \<Rightarrow> 'a list" where
  "unique xs = rev (remdups (rev xs))"

text \<open>
  The four drawing passes, in the order of the script. The base map, the title, the search
  box and the fullscreen button carry no geometry and are left out; the pass over the
  outside counties wraps only calls of the map widget in its \<open>try\<close>, so it has no failing
  branch here.
\<close>

definition draw ::
  "'g shapely \<Rightarrow> 'g district list \<Rightarrow> 'g \<Rightarrow> 'g county list \<Rightarrow> 'g county list \<Rightarrow> string list \<Rightarrow>
   'g run_state" where
  "draw lib ky6 ky6_geom kc clipped_counties out =
     (let m0 = \<lparr>layers = [], printed = out\<rparr>;
          m1 = fold outside_step (outside_counties lib ky6_geom kc) m0;
          m2 = fold (partial_step lib ky6_geom) (intersecting_counties lib ky6_geom kc) m1;
          m3 = m2\<lparr>layers := layers m2 @ [Boundary (map geometry ky6)]\<rparr>
      in fold (county_step lib) clipped_counties m3)"

definition create_ky6_map ::
  "'g shapely \<Rightarrow> 'g district list \<Rightarrow> 'g county list \<Rightarrow> error + 'g run_state" where
  "create_ky6_map lib districts counties =
     (let ky6 = ky6_district districts in
      if ky6 = [] then
        Inl (MissingRegion (unique (map CD119FP (filter (\<lambda>d. STATEFP d = ''21'') districts))))
      else
        let kc = ky_counties counties;
            ky6_geom = geometry (hd ky6);
            cl = clip_loop lib ky6_geom (intersecting_counties lib ky6_geom kc)
        in case repair lib (fst cl) of
             Inl err \<Rightarrow> Inl err
           | Inr clipped_counties \<Rightarrow> Inr (draw lib ky6 ky6_geom kc clipped_counties (snd cl)))"

subsection \<open>What the run holds for one candidate\<close>

text \<open>
  The script has no classifier function: a county is classified by the pass that takes it.
  The rows of \<open>outside_counties\<close> (line 137) are the disjoint ones; of the rows of
  \<open>intersecting_counties\<close> (line 76), those with a non-empty part outside the district are
  the ones the script calls partial (line 157), the others are contained. A difference that
  raises draws nothing, as an empty one.
\<close>

datatype tag = DISJOINT | CONTAINED | PARTIAL

definition classify :: "'g shapely \<Rightarrow> 'g \<Rightarrow> 'g county \<Rightarrow> tag" where
  "classify lib ky6_geom c =
     (if outside_counties lib ky6_geom [c] = [c] then DISJOINT
      else case layers (fold (partial_step lib ky6_geom) (intersecting_counties lib ky6_geom [c])
                  \<lparr>layers = [], printed = []\<rparr>) of
             [] \<Rightarrow> CONTAINED
           | _ \<Rightarrow> PARTIAL)"

text \<open>
  The clipped-in geometry of a candidate is what lines 76 to 97 leave in \<open>clipped_counties\<close>
  for it, the clipped-out geometry what lines 158 to 176 draw for it: both are read off a run
  of these lines on the candidate alone. \<open>None\<close>: nothing is held.
\<close>

definition clippedIn :: "'g shapely \<Rightarrow> 'g \<Rightarrow> 'g county \<Rightarrow> 'g option" where
  "clippedIn lib ky6_geom c =
     (case repair lib (fst (clip_loop lib ky6_geom (intersecting_counties lib ky6_geom [c]))) of
        Inr [r] \<Rightarrow> Some (geometry r)
      | _ \<Rightarrow> None)"

definition clippedOut :: "'g shapely \<Rightarrow> 'g \<Rightarrow> 'g county \<Rightarrow> 'g option" where
  "clippedOut lib ky6_geom c =
     (case layers (fold (partial_step lib ky6_geom) (intersecting_counties lib ky6_geom [c])
              \<lparr>layers = [], printed = []\<rparr>) of
        [Excluded g n] \<Rightarrow> Some g
      | _ \<Rightarrow> None)"

definition empty_geom :: "'g shapely \<Rightarrow> 'g option \<Rightarrow> bool" where
  "empty_geom lib og = (case og of None \<Rightarrow> True | Some g \<Rightarrow> is_empty_geom lib g)"

definition is_included :: "'g layer \<Rightarrow> bool" where
  "is_included l = (case l of Included g n \<Rightarrow> True | _ \<Rightarrow> False)"


subsection \<open>The draw order of the specification\<close>

text \<open>
  Section 4.6 of the specification, in its words: (1) the full geometry of the disjoint
  candidates, excluded; (2) the clipped-out geometry of the partial candidates, excluded;
  (3) the outline of the Region; (4) the clipped-in geometry of each candidate, included,
  with its anchor point and name, a candidate with an empty clipped-in geometry being left
  out. Each part is written from the classification and the clipped geometries of the
  candidates, not from the passes of the script.
\<close>

definition excluded_full :: "'g shapely \<Rightarrow> 'g \<Rightarrow> 'g county list \<Rightarrow> 'g layer list" where
  "excluded_full lib ky6_geom kc =
     map (\<lambda>c. Excluded (geometry c) (NAME c)) (filter (\<lambda>c. classify lib ky6_geom c = DISJOINT) kc)"

definition excluded_partial :: "'g shapely \<Rightarrow> 'g \<Rightarrow> 'g county list \<Rightarrow> 'g layer list" where
  "excluded_partial lib ky6_geom kc =
     concat (map (\<lambda>c. case clippedOut lib ky6_geom c of
                        Some d \<Rightarrow> [Excluded d (NAME c)]
                      | None \<Rightarrow> [])
                 (filter (\<lambda>c. classify lib ky6_geom c = PARTIAL) kc))"

definition included_labelled :: "'g shapely \<Rightarrow> 'g \<Rightarrow> 'g county list \<Rightarrow> 'g layer list" where
  "included_labelled lib ky6_geom kc =
     concat (map (\<lambda>c. case clippedIn lib ky6_geom c of
                        None \<Rightarrow> []
                      | Some i \<Rightarrow>
                          if is_empty_geom lib i then []
                          else Included i (NAME c) #
                               (case anchor lib i of Inr (Some p) \<Rightarrow> [Label p (NAME c)] | _ \<Rightarrow> []))
                 kc)"

definition draw_order :: "'g shapely \<Rightarrow> 'g district list \<Rightarrow> 'g \<Rightarrow> 'g county list \<Rightarrow> 'g layer list" where
  "draw_order lib ky6 ky6_geom kc =
     excluded_full lib ky6_geom kc @ excluded_partial lib ky6_geom kc @
     [Boundary (map geometry ky6)] @ included_labelled lib ky6_geom kc"

section \<open>The library on the integer grid\<close>

text \<open>
  Witnesses and counterexamples need geometries on which the operations of the library are
  known exactly. These are the geometries made of cells of the integer grid: a cell \<open>(i, j)\<close>
  is, in doubled coordinates, the open unit square with centre \<open>(i/2, j/2)\<close> when \<open>i\<close> and
  \<open>j\<close> are odd, an open unit edge when one of them is even, a grid point when both are. A
  geometry is the list of the cells it is made of; shapely's geometries are closed sets, so
  a polygon is the closure of its squares. On such input every coordinate the library
  computes is a small integer or half-integer, so that its floating point arithmetic is exact.
\<close>

type_synonym cell = "int \<times> int"

definition is_square :: "cell \<Rightarrow> bool" where
  "is_square c = (odd (fst c) \<and> odd (snd c))"

definition span :: "int \<Rightarrow> int list" where
  "span i = (if odd i then [i - 1, i, i + 1] else [i])"

definition closure_cell :: "cell \<Rightarrow> cell list" where
  "closure_cell c = List.product (span (fst c)) (span (snd c))"

definition closure :: "cell list \<Rightarrow> cell list" where
  "closure cs = remdups (concat (map closure_cell cs))"

definition squares :: "cell list \<Rightarrow> cell list" where
  "squares g = filter is_square g"

text \<open>The closed rectangle \<open>[x0, x1] \<times> [y0, y1]\<close>.\<close>

definition rect :: "int \<Rightarrow> int \<Rightarrow> int \<Rightarrow> int \<Rightarrow> cell list" where
  "rect x0 y0 x1 y1 =
     closure (List.product (map (\<lambda>i. 2 * i + 1) [x0..x1 - 1]) (map (\<lambda>j. 2 * j + 1) [y0..y1 - 1]))"

text \<open>
  Two squares belong to one part when a chain of squares that share an edge joins them
  (squares that share only a corner are two parts of a MultiPolygon).
\<close>

definition adjacent :: "cell \<Rightarrow> cell \<Rightarrow> bool" where
  "adjacent a b = (\<bar>fst a - fst b\<bar> + \<bar>snd a - snd b\<bar> = 2)"

fun grow :: "nat \<Rightarrow> cell list \<Rightarrow> cell list \<Rightarrow> cell list" where
  "grow 0 sq seen = seen"
| "grow (Suc n) sq seen = grow n sq (filter (\<lambda>s. s \<in> set seen \<or> list_ex (adjacent s) seen) sq)"

definition connected :: "cell list \<Rightarrow> bool" where
  "connected sq = (case sq of [] \<Rightarrow> True | s # _ \<Rightarrow> list_all (\<lambda>t. t \<in> set (grow (length sq) sq [s])) sq)"

definition centre :: "cell \<Rightarrow> point" where
  "centre c = (of_int (fst c) / 2, of_int (snd c) / 2)"

definition cell_coord :: "rat \<Rightarrow> int" where
  "cell_coord x = (if of_int \<lfloor>x\<rfloor> = x then 2 * \<lfloor>x\<rfloor> else 2 * \<lfloor>x\<rfloor> + 1)"

text \<open>
  The operations of the library, as operations on closed sets of points: two geometries
  intersect when they have a cell in common, and their intersection is made of the cells
  they have in common (an edge or a grid point when they only touch); the difference of a
  polygon and a geometry is the closure of the squares of the first that are not in the
  second; \<open>buffer(0)\<close> keeps the area of a geometry, the closure of its squares, which is
  the empty polygon for a geometry without area.
\<close>

definition grid_intersects :: "cell list \<Rightarrow> cell list \<Rightarrow> bool" where
  "grid_intersects a b = list_ex (\<lambda>c. c \<in> set b) a"

definition grid_intersection :: "cell list \<Rightarrow> cell list \<Rightarrow> exn + cell list" where
  "grid_intersection a b = Inr (filter (\<lambda>c. c \<in> set b) a)"

definition grid_difference :: "cell list \<Rightarrow> cell list \<Rightarrow> exn + cell list" where
  "grid_difference a b = Inr (closure (filter (\<lambda>c. c \<notin> set b) (squares a)))"

definition grid_buffer0 :: "cell list \<Rightarrow> exn + cell list" where
  "grid_buffer0 g = Inr (closure (squares g))"

text \<open>
  A geometry with a part of lower dimension is a LineString, a Point, one of their Multi
  forms or a GeometryCollection in shapely: none of them is \<open>Polygon\<close> or \<open>MultiPolygon\<close>,
  which is all the script tells apart, and the one name stands for them.
\<close>

definition grid_geom_type :: "cell list \<Rightarrow> string" where
  "grid_geom_type g =
     (if list_all (\<lambda>c. c \<in> set (closure (squares g))) g
      then (if connected (remdups (squares g)) then ''Polygon'' else ''MultiPolygon'')
      else ''GeometryCollection'')"

text \<open>
  The centroid of a union of unit squares is the mean of their centres. The centroid of a
  geometry without area is not asked for by the run (such a row is empty after line 97).
\<close>

definition grid_centroid :: "cell list \<Rightarrow> exn + point" where
  "grid_centroid g =
     (let sq = remdups (squares g) in
      if sq = [] then Inl (GEOSException ''empty geometry'')
      else Inr (sum_list (map (fst \<circ> centre) sq) / of_nat (length sq),
                sum_list (map (snd \<circ> centre) sq) / of_nat (length sq)))"

definition grid_representative_point :: "cell list \<Rightarrow> exn + point" where
  "grid_representative_point g =
     (case squares g of [] \<Rightarrow> Inl (GEOSException ''empty geometry'') | s # _ \<Rightarrow> Inr (centre s))"

definition grid_contains :: "cell list \<Rightarrow> point \<Rightarrow> bool" where
  "grid_contains g p = ((cell_coord (fst p), cell_coord (snd p)) \<in> set g)"

definition grid_lib :: "cell list shapely" where
  "grid_lib =
     \<lparr> intersects = grid_intersects,
       intersection = grid_intersection,
       difference = grid_difference,
       is_empty_geom = (\<lambda>g. g = []),
       is_valid = (\<lambda>g. True),
       buffer0 = grid_buffer0,
       geom_type = grid_geom_type,
       centroid = grid_centroid,
       representative_point = grid_representative_point,
       contains_point = grid_contains \<rparr>"

text \<open>The area of a grid geometry: the number of its squares.\<close>

definition area :: "cell list \<Rightarrow> nat" where
  "area g = card (set (squares g))"

text \<open>
  Two grid geometries touch only on the boundary when they have a cell in common and no
  square in common.
\<close>

definition touch_only :: "cell list \<Rightarrow> cell list \<Rightarrow> bool" where
  "touch_only a b = (grid_intersects a b \<and> squares (filter (\<lambda>c. c \<in> set b) a) = [])"

subsection \<open>Concrete inputs\<close>

definition the_district :: "cell list \<Rightarrow> cell list district" where
  "the_district g = \<lparr> STATEFP = ''21'', geometry = g, CD119FP = ''06'' \<rparr>"

definition a_county :: "string \<Rightarrow> cell list \<Rightarrow> cell list county" where
  "a_county n g = \<lparr> STATEFP = ''21'', geometry = g, NAME = n \<rparr>"


text \<open>
  The scenarios of the specification at a fifth of their size: the Region \<open>[0, 2] \<times> [0, 2]\<close>,
  a candidate A that half overlaps it, a candidate T that shares only the edge \<open>x = 2\<close> with
  it, a candidate B away from it and a candidate C inside it.
\<close>

definition example_districts :: "cell list district list" where
  "example_districts = [the_district (rect 0 0 2 2)]"

definition example_counties :: "cell list county list" where
  "example_counties =
     [a_county ''A'' (rect 1 0 3 2), a_county ''T'' (rect 2 0 4 2),
      a_county ''B'' (rect 5 5 6 6), a_county ''C'' (rect 0 0 1 1)]"



text \<open>The library of the grid, with a centroid that always raises.\<close>

definition no_centroid_lib :: "cell list shapely" where
  "no_centroid_lib = grid_lib\<lparr>centroid := (\<lambda>g. Inl (GEOSException ''no centroid''))\<rparr>"



section \<open>Properties of the address check\<close>











section \<open>Properties of the overlay run\<close>

subsection \<open>The run, candidate by candidate\<close>

text \<open>
  What the definitions of the previous section say for one candidate, and the passes of the
  script as concatenations over the candidates: no pass carries anything from one candidate
  to the next but the table and the map it appends to.
\<close>

lemma intersecting_single:
  "intersecting_counties lib g [c] = (if intersects lib (geometry c) g then [c] else [])"
  by (simp add: intersecting_counties_def)

lemma outside_single:
  "outside_counties lib g [c] = (if intersects lib (geometry c) g then [] else [c])"
  by (simp add: outside_counties_def)

lemma classify_alt:
  "classify lib g c =
     (if \<not> intersects lib (geometry c) g then DISJOINT
      else case difference lib (geometry c) g of
             Inr d \<Rightarrow> if is_empty_geom lib d then CONTAINED else PARTIAL
           | Inl e \<Rightarrow> CONTAINED)"
  by (simp add: classify_def intersecting_single outside_single partial_step_def split: sum.splits)

lemma clippedIn_alt:
  "clippedIn lib g c =
     (if intersects lib (geometry c) g then
        (case intersection lib (geometry c) g of
           Inr x \<Rightarrow>
             if \<not> is_empty_geom lib x \<and> is_valid lib x
             then (case buffer0 lib x of Inr y \<Rightarrow> Some y | Inl e \<Rightarrow> None)
             else None
         | Inl e \<Rightarrow> None)
      else None)"
  by (simp add: clippedIn_def intersecting_single clip_loop_def clip_step_def repair_def
      split: sum.splits)

lemma clippedOut_alt:
  "clippedOut lib g c =
     (if intersects lib (geometry c) g then
        (case difference lib (geometry c) g of
           Inr d \<Rightarrow> if \<not> is_empty_geom lib d then Some d else None
         | Inl e \<Rightarrow> None)
      else None)"
  by (simp add: clippedOut_def intersecting_single partial_step_def split: sum.splits)

lemma clip_step_fst:
  "fst (clip_step lib g c acc) = fst acc @ fst (clip_step lib g c ([], []))"
  by (simp add: clip_step_def split: sum.splits)

lemma clip_fold_fst:
  "fst (fold (clip_step lib g) cs acc) = fst acc @ concat (map (\<lambda>c. fst (clip_step lib g c ([], []))) cs)"
proof (induction cs arbitrary: acc)
  case Nil
  then show ?case by simp
next
  case (Cons c cs)
  show ?case by (simp add: Cons.IH [of "clip_step lib g c acc"] clip_step_fst [of lib g c acc])
qed

lemma clip_loop_rows:
  "fst (clip_loop lib g cs) = concat (map (\<lambda>c. fst (clip_loop lib g [c])) cs)"
  by (simp add: clip_loop_def clip_fold_fst)

lemma outside_fold_layers:
  "layers (fold outside_step cs m) = layers m @ map (\<lambda>c. Excluded (geometry c) (NAME c)) cs"
  by (induction cs arbitrary: m) (simp_all add: outside_step_def)

lemma partial_step_layers:
  "layers (partial_step lib g c m) = layers m @ layers (partial_step lib g c \<lparr>layers = [], printed = []\<rparr>)"
  by (simp add: partial_step_def split: sum.splits)

lemma partial_fold_layers:
  "layers (fold (partial_step lib g) cs m) =
     layers m @ concat (map (\<lambda>c. layers (partial_step lib g c \<lparr>layers = [], printed = []\<rparr>)) cs)"
proof (induction cs arbitrary: m)
  case Nil
  then show ?case by simp
next
  case (Cons c cs)
  show ?case by (simp add: Cons.IH [of "partial_step lib g c m"] partial_step_layers [of lib g c m])
qed

lemma county_step_layers:
  "layers (county_step lib r m) = layers m @ layers (county_step lib r \<lparr>layers = [], printed = []\<rparr>)"
  by (simp add: county_step_def Let_def split: sum.splits option.splits)

lemma county_fold_layers:
  "layers (fold (county_step lib) rs m) =
     layers m @ concat (map (\<lambda>r. layers (county_step lib r \<lparr>layers = [], printed = []\<rparr>)) rs)"
proof (induction rs arbitrary: m)
  case Nil
  then show ?case by simp
next
  case (Cons r rs)
  show ?case by (simp add: Cons.IH [of "county_step lib r m"] county_step_layers [of lib r m])
qed

lemma buffer_all_append:
  "buffer_all lib (xs @ ys) =
     (case buffer_all lib xs of
        Inl e \<Rightarrow> Inl e
      | Inr xs' \<Rightarrow> (case buffer_all lib ys of Inl e \<Rightarrow> Inl e | Inr ys' \<Rightarrow> Inr (xs' @ ys')))"
  by (induction xs) (simp_all split: sum.splits)

lemma concat_map_filter:
  "concat (map f (filter P xs)) = concat (map (\<lambda>x. if P x then f x else []) xs)"
  by (induction xs) simp_all

lemma buffer_all_concat:
  "buffer_all lib (concat xss) = Inr rows \<Longrightarrow>
   rows = concat (map (\<lambda>xs. case buffer_all lib xs of Inr ys \<Rightarrow> ys | Inl e \<Rightarrow> []) xss) \<and>
   list_all (\<lambda>xs. \<exists>ys. buffer_all lib xs = Inr ys) xss"
proof (induction xss arbitrary: rows)
  case Nil
  then show ?case by simp
next
  case (Cons xs xss)
  from Cons.prems obtain a b where ab: "buffer_all lib xs = Inr a" "buffer_all lib (concat xss) = Inr b"
    "rows = a @ b"
    by (auto simp: buffer_all_append split: sum.splits)
  from Cons.IH [OF ab(2)] ab show ?case by simp
qed

text \<open>The rows a candidate contributes to the repaired table.\<close>

lemma rows_of_candidate:
  assumes "buffer_all lib (fst (clip_loop lib g (intersecting_counties lib g [c]))) = Inr ys"
  shows "ys = (case clippedIn lib g c of Some i \<Rightarrow> [c\<lparr>geometry := i\<rparr>] | None \<Rightarrow> [])"
  using assms
  by (auto simp: clippedIn_alt intersecting_single clip_loop_def clip_step_def
      split: sum.splits if_splits)

lemma repaired_rows:
  assumes "repair lib (fst (clip_loop lib g (intersecting_counties lib g kc))) = Inr rows"
  shows "rows = concat (map (\<lambda>c. case clippedIn lib g c of Some i \<Rightarrow> [c\<lparr>geometry := i\<rparr>] | None \<Rightarrow> []) kc)"
proof -
  let ?per = "\<lambda>c. fst (clip_loop lib g (intersecting_counties lib g [c]))"
  have tab: "fst (clip_loop lib g (intersecting_counties lib g kc)) = concat (map ?per kc)"
  proof -
    have "fst (clip_loop lib g (intersecting_counties lib g kc)) =
        concat (map (\<lambda>c. fst (clip_loop lib g [c])) (filter (\<lambda>c. intersects lib (geometry c) g) kc))"
      unfolding intersecting_counties_def by (rule clip_loop_rows)
    also have "\<dots> = concat (map (\<lambda>c. if intersects lib (geometry c) g then fst (clip_loop lib g [c]) else []) kc)"
      by (rule concat_map_filter)
    also have "\<dots> = concat (map ?per kc)"
      by (rule arg_cong [where f = concat], rule map_cong [OF refl])
         (simp add: intersecting_single clip_loop_def)
    finally show ?thesis .
  qed
  from assms have b: "buffer_all lib (concat (map ?per kc)) = Inr rows"
    by (simp add: repair_def tab split: if_splits sum.splits)
  from buffer_all_concat [OF b]
  have r: "rows = concat (map (\<lambda>xs. case buffer_all lib xs of Inr ys \<Rightarrow> ys | Inl e \<Rightarrow> []) (map ?per kc))"
    and ok: "list_all (\<lambda>xs. \<exists>ys. buffer_all lib xs = Inr ys) (map ?per kc)"
    by simp_all
  have eq: "map (\<lambda>xs. case buffer_all lib xs of Inr ys \<Rightarrow> ys | Inl e \<Rightarrow> []) (map ?per kc) =
        map (\<lambda>c. case clippedIn lib g c of Some i \<Rightarrow> [c\<lparr>geometry := i\<rparr>] | None \<Rightarrow> []) kc"
    unfolding map_map
  proof (rule map_cong [OF refl])
    fix c assume "c \<in> set kc"
    with ok obtain ys where ys: "buffer_all lib (?per c) = Inr ys"
      by (auto simp: list_all_iff)
    from rows_of_candidate [OF ys] ys
    show "((\<lambda>xs. case buffer_all lib xs of Inr ys \<Rightarrow> ys | Inl e \<Rightarrow> []) \<circ> ?per) c =
          (case clippedIn lib g c of Some i \<Rightarrow> [c\<lparr>geometry := i\<rparr>] | None \<Rightarrow> [])"
      by simp
  qed
  show ?thesis by (simp only: r eq)
qed

lemma outside_is_disjoint:
  "outside_counties lib g kc = filter (\<lambda>c. classify lib g c = DISJOINT) kc"
  unfolding outside_counties_def
  by (rule filter_cong [OF refl]) (simp add: classify_alt split: sum.splits)

lemma partial_layers_by_tag:
  "concat (map (\<lambda>c. layers (partial_step lib g c \<lparr>layers = [], printed = []\<rparr>)) (intersecting_counties lib g kc)) =
   excluded_partial lib g kc"
proof -
  have "concat (map (\<lambda>c. layers (partial_step lib g c \<lparr>layers = [], printed = []\<rparr>)) (intersecting_counties lib g kc)) =
     concat (map (\<lambda>c. if intersects lib (geometry c) g then layers (partial_step lib g c \<lparr>layers = [], printed = []\<rparr>) else []) kc)"
    unfolding intersecting_counties_def by (rule concat_map_filter)
  also have "\<dots> = concat (map (\<lambda>c. if classify lib g c = PARTIAL then
        (case clippedOut lib g c of Some d \<Rightarrow> [Excluded d (NAME c)] | None \<Rightarrow> []) else []) kc)"
    by (rule arg_cong [where f = concat], rule map_cong [OF refl])
       (simp add: classify_alt clippedOut_alt partial_step_def split: sum.splits)
  also have "\<dots> = excluded_partial lib g kc"
    unfolding excluded_partial_def by (rule concat_map_filter [symmetric])
  finally show ?thesis .
qed

lemma county_layers_by_clip:
  assumes "rows = concat (map (\<lambda>c. case clippedIn lib g c of Some i \<Rightarrow> [c\<lparr>geometry := i\<rparr>] | None \<Rightarrow> []) kc)"
  shows "concat (map (\<lambda>r. layers (county_step lib r \<lparr>layers = [], printed = []\<rparr>)) rows) =
         included_labelled lib g kc"
  unfolding assms included_labelled_def
  by (induction kc) (simp_all add: county_step_def Let_def split: option.splits sum.splits)

text \<open>The layers of a finished run are those of the draw order of the specification.\<close>

lemma run_layers:
  assumes "create_ky6_map lib districts counties = Inr m"
  shows "layers m = draw_order lib (ky6_district districts)
           (geometry (hd (ky6_district districts))) (ky_counties counties)"
proof -
  let ?ky6 = "ky6_district districts" and ?g = "geometry (hd (ky6_district districts))"
  let ?kc = "ky_counties counties"
  from assms obtain rows where
    rep: "repair lib (fst (clip_loop lib ?g (intersecting_counties lib ?g ?kc))) = Inr rows" and
    m: "m = draw lib ?ky6 ?g ?kc rows (snd (clip_loop lib ?g (intersecting_counties lib ?g ?kc)))"
    by (auto simp: create_ky6_map_def Let_def split: if_splits sum.splits)
  note rows = repaired_rows [OF rep]
  have "layers m =
      map (\<lambda>c. Excluded (geometry c) (NAME c)) (outside_counties lib ?g ?kc) @
      concat (map (\<lambda>c. layers (partial_step lib ?g c \<lparr>layers = [], printed = []\<rparr>)) (intersecting_counties lib ?g ?kc)) @
      [Boundary (map geometry ?ky6)] @
      concat (map (\<lambda>r. layers (county_step lib r \<lparr>layers = [], printed = []\<rparr>)) rows)"
    unfolding m draw_def Let_def
    by (simp add: county_fold_layers partial_fold_layers outside_fold_layers)
  also have "\<dots> = draw_order lib ?ky6 ?g ?kc"
    unfolding draw_order_def excluded_full_def
    by (simp only: partial_layers_by_tag county_layers_by_clip [OF rows] outside_is_disjoint)
  finally show ?thesis .
qed

subsection \<open>The library of the grid\<close>

lemma grid_lib_simps:
  "intersects grid_lib = grid_intersects"
  "intersection grid_lib = grid_intersection"
  "difference grid_lib = grid_difference"
  "is_empty_geom grid_lib = (\<lambda>g. g = [])"
  "is_valid grid_lib = (\<lambda>g. True)"
  "buffer0 grid_lib = grid_buffer0"
  by (simp_all add: grid_lib_def)

lemma closure_cell_square:
  "is_square s \<Longrightarrow> filter is_square (closure_cell s) = [s]"
  by (cases s) (simp add: closure_cell_def is_square_def span_def)

lemma closure_cell_nonempty: "closure_cell c \<noteq> []"
  by (simp add: closure_cell_def span_def)

lemma closure_empty_iff: "closure S = [] \<longleftrightarrow> S = []"
proof
  assume "closure S = []"
  then have "set (concat (map closure_cell S)) = {}" by (simp add: closure_def)
  then show "S = []" using closure_cell_nonempty by (cases S) auto
qed (simp add: closure_def)

lemma set_squares_closure:
  assumes "list_all is_square S"
  shows "set (squares (closure S)) = set S"
proof -
  have "set (squares (closure S)) = (\<Union>s\<in>set S. set (filter is_square (closure_cell s)))"
    by (auto simp: squares_def closure_def)
  also have "\<dots> = (\<Union>s\<in>set S. {s})"
    using assms by (intro SUP_cong refl) (simp add: list_all_iff closure_cell_square)
  finally show ?thesis by simp
qed

lemma squares_filter: "squares (filter P a) = filter P (squares a)"
  by (auto simp: squares_def intro: filter_cong)

lemma grid_clippedIn:
  "clippedIn grid_lib r c =
     (if grid_intersects (geometry c) r
      then Some (closure (squares (filter (\<lambda>x. x \<in> set r) (geometry c))))
      else None)"
  by (auto simp: clippedIn_alt grid_lib_simps grid_intersection_def grid_buffer0_def
      grid_intersects_def list_ex_iff filter_empty_conv)

lemma grid_clippedOut:
  "clippedOut grid_lib r c =
     (if grid_intersects (geometry c) r \<and> filter (\<lambda>x. x \<notin> set r) (squares (geometry c)) \<noteq> []
      then Some (closure (filter (\<lambda>x. x \<notin> set r) (squares (geometry c))))
      else None)"
  by (simp add: clippedOut_alt grid_lib_simps grid_difference_def closure_empty_iff)

lemma grid_classify:
  "classify grid_lib r c =
     (if \<not> grid_intersects (geometry c) r then DISJOINT
      else if filter (\<lambda>x. x \<notin> set r) (squares (geometry c)) = [] then CONTAINED else PARTIAL)"
  by (simp add: classify_alt grid_lib_simps grid_difference_def closure_empty_iff)

text \<open>
  On the grid the test \<open>intersects\<close> and the intersection of line 82 agree: a candidate is
  DISJOINT exactly when that intersection, before any repair, is empty.
\<close>

lemma grid_disjoint_iff_raw_intersection_empty:
  "classify grid_lib r c = DISJOINT \<longleftrightarrow> intersection grid_lib (geometry c) r = Inr []"
  by (auto simp: grid_classify grid_lib_simps grid_intersection_def grid_intersects_def
      list_ex_iff filter_empty_conv)

subsection \<open>Routing\<close>


subsection \<open>Draw order\<close>




subsection \<open>DISJOINT and the clipped-in geometry\<close>




subsection \<open>Candidates that touch the Region only on its boundary\<close>

text \<open>
  C4, as amended. On the grid, a candidate that touches the Region only on the boundary
  (a cell in common, no square in common) is not classified DISJOINT but PARTIAL (CONTAINED
  when it has no area): the test \<open>intersects\<close> sends it to the intersecting path and not
  to the pass of the outside counties. There its
  clipped-in geometry is the empty polygon after the repair of line 97, so that nothing of
  it is drawn as included, and its clipped-out geometry is all of its area, drawn as
  excluded by the partial pass.
\<close>

theorem touching_candidate_is_routed_intersecting:
  assumes "touch_only (geometry c) r"
  shows "classify grid_lib r c \<noteq> DISJOINT \<and>
         classify grid_lib r c = (if squares (geometry c) = [] then CONTAINED else PARTIAL) \<and>
         intersecting_counties grid_lib r [c] = [c] \<and>
         outside_counties grid_lib r [c] = [] \<and>
         clippedIn grid_lib r c = Some [] \<and>
         clippedOut grid_lib r c =
           (if squares (geometry c) = [] then None else Some (closure (squares (geometry c))))"
proof -
  from assms have i: "grid_intersects (geometry c) r"
    and n: "filter (\<lambda>x. x \<in> set r) (squares (geometry c)) = []"
    by (simp_all add: touch_only_def squares_filter)
  from n have out: "filter (\<lambda>x. x \<notin> set r) (squares (geometry c)) = squares (geometry c)"
    by (auto simp: filter_empty_conv filter_id_conv)
  show ?thesis
    using i
    by (simp add: grid_classify grid_clippedIn grid_clippedOut intersecting_single outside_single
        grid_lib_simps squares_filter n out closure_def)
qed

text \<open>Candidate T of the example touches the Region along the edge \<open>x = 2\<close>.\<close>

theorem touching_candidate_is_routed_intersecting_witness:
  "touch_only (rect 2 0 4 2) (rect 0 0 2 2) \<and>
   classify grid_lib (rect 0 0 2 2) (a_county ''T'' (rect 2 0 4 2)) \<noteq> DISJOINT \<and>
   clippedIn grid_lib (rect 0 0 2 2) (a_county ''T'' (rect 2 0 4 2)) = Some [] \<and>
   clippedOut grid_lib (rect 0 0 2 2) (a_county ''T'' (rect 2 0 4 2)) = Some (rect 2 0 4 2)"
proof -
  have g: "geometry (a_county ''T'' (rect 2 0 4 2)) = rect 2 0 4 2"
    by (simp add: a_county_def)
  have h: "touch_only (geometry (a_county ''T'' (rect 2 0 4 2))) (rect 0 0 2 2)"
    unfolding g by code_simp
  have s: "squares (rect 2 0 4 2) \<noteq> []" by code_simp
  have c: "closure (squares (rect 2 0 4 2)) = rect 2 0 4 2" by code_simp
  from touching_candidate_is_routed_intersecting [OF h] h s c show ?thesis
    unfolding g by simp
qed

text \<open>
  C4 as stated fails: candidate T touches the Region only on the boundary, and the
  classifier returns PARTIAL for it, not DISJOINT.
\<close>

theorem touching_candidate_classified_partial:
  "touch_only (geometry (a_county ''T'' (rect 2 0 4 2))) (rect 0 0 2 2) \<and>
   classify grid_lib (rect 0 0 2 2) (a_county ''T'' (rect 2 0 4 2)) = PARTIAL"
  by code_simp

subsection \<open>Partial candidates\<close>

text \<open>
  C5, as amended. On the grid, where areas are exact, a candidate classified PARTIAL has a
  clipped-in and a non-empty clipped-out geometry whose areas add up to the area of the
  candidate; the clipped-in geometry is empty exactly when the candidate touches the Region
  only on the boundary.
\<close>

theorem partial_candidate_areas:
  assumes "classify grid_lib r c = PARTIAL"
  shows "\<exists>i out. clippedIn grid_lib r c = Some i \<and> clippedOut grid_lib r c = Some out \<and>
           out \<noteq> [] \<and> area i + area out = area (geometry c) \<and>
           (i = [] \<longleftrightarrow> touch_only (geometry c) r)"
proof -
  let ?a = "geometry c"
  let ?in = "filter (\<lambda>x. x \<in> set r) (squares ?a)" and ?out = "filter (\<lambda>x. x \<notin> set r) (squares ?a)"
  from assms have i: "grid_intersects ?a r" and o: "?out \<noteq> []"
    by (auto simp: grid_classify split: if_splits)
  have sq_in: "list_all is_square ?in" and sq_out: "list_all is_square ?out"
    by (simp_all add: squares_def list_all_iff)
  have "card (set ?in) + card (set ?out) = card (set ?in \<union> set ?out)"
    by (rule card_Un_disjoint [symmetric]) auto
  also have "set ?in \<union> set ?out = set (squares ?a)" by auto
  finally have cd: "card (set ?in) + card (set ?out) = card (set (squares ?a))" .
  have ar: "area (closure ?in) + area (closure ?out) = area ?a"
    by (simp only: area_def set_squares_closure [OF sq_in] set_squares_closure [OF sq_out] cd)
  have "clippedIn grid_lib r c = Some (closure ?in)" using i by (simp add: grid_clippedIn squares_filter)
  moreover have "clippedOut grid_lib r c = Some (closure ?out)" using i o by (simp add: grid_clippedOut)
  moreover have "closure ?out \<noteq> []" using o by (simp add: closure_empty_iff)
  moreover have "closure ?in = [] \<longleftrightarrow> touch_only ?a r"
    using i by (simp add: closure_empty_iff touch_only_def squares_filter)
  ultimately show ?thesis using ar by blast
qed

text \<open>Candidate A of the example: half of its four squares on each side.\<close>

theorem partial_candidate_areas_witness:
  "classify grid_lib (rect 0 0 2 2) (a_county ''A'' (rect 1 0 3 2)) = PARTIAL \<and>
   (\<exists>i out. clippedIn grid_lib (rect 0 0 2 2) (a_county ''A'' (rect 1 0 3 2)) = Some i \<and>
      clippedOut grid_lib (rect 0 0 2 2) (a_county ''A'' (rect 1 0 3 2)) = Some out \<and>
      i \<noteq> [] \<and> out \<noteq> [] \<and> area i + area out = 4)"
proof -
  have h: "classify grid_lib (rect 0 0 2 2) (a_county ''A'' (rect 1 0 3 2)) = PARTIAL"
    by code_simp
  have t: "\<not> touch_only (geometry (a_county ''A'' (rect 1 0 3 2))) (rect 0 0 2 2)"
    by code_simp
  have a: "area (geometry (a_county ''A'' (rect 1 0 3 2))) = 4"
    by code_simp
  from partial_candidate_areas [OF h] t a h show ?thesis by auto
qed

text \<open>
  C5 as stated fails: candidate T is classified PARTIAL (it intersects the Region and its
  part outside is not empty), and its clipped-in geometry is empty.
\<close>

theorem touching_candidate_partial_with_empty_clip:
  "classify grid_lib (rect 0 0 2 2) (a_county ''T'' (rect 2 0 4 2)) = PARTIAL \<and>
   empty_geom grid_lib (clippedIn grid_lib (rect 0 0 2 2) (a_county ''T'' (rect 2 0 4 2))) \<and>
   \<not> empty_geom grid_lib (clippedOut grid_lib (rect 0 0 2 2) (a_county ''T'' (rect 2 0 4 2)))"
  by code_simp

subsection \<open>Labels\<close>

lemma included_of_draw_order:
  "filter is_included (draw_order lib ky6 g kc) =
     concat (map (\<lambda>c. case clippedIn lib g c of
                        None \<Rightarrow> []
                      | Some i \<Rightarrow> if is_empty_geom lib i then [] else [Included i (NAME c)]) kc)"
proof -
  have a: "filter is_included (excluded_full lib g kc) = []"
    by (simp add: excluded_full_def is_included_def filter_empty_conv)
  have b: "filter is_included (excluded_partial lib g kc) = []"
    by (auto simp: excluded_partial_def is_included_def filter_empty_conv split: option.splits)
  have c: "filter is_included (included_labelled lib g kc) =
     concat (map (\<lambda>c. case clippedIn lib g c of
                        None \<Rightarrow> []
                      | Some i \<Rightarrow> if is_empty_geom lib i then [] else [Included i (NAME c)]) kc)"
    unfolding included_labelled_def
    by (induction kc) (simp_all add: is_included_def split: option.splits sum.splits)
  show ?thesis by (simp add: draw_order_def a b c is_included_def)
qed

text \<open>
  C9. When the anchor of a row with a non-empty geometry cannot be resolved (the geometry is
  neither a Polygon nor a MultiPolygon, or the library raises while the point is computed),
  the pass adds the included layer of the row and no label. In a finished run the included
  layers are those of all candidates with a non-empty clipped-in geometry, in order,
  whatever became of their anchors.
\<close>

theorem unlabelled_candidate_is_still_drawn:
  "(\<not> is_empty_geom lib (geometry county) \<and> (\<forall>p. anchor lib (geometry county) \<noteq> Inr (Some p)) \<longrightarrow>
      layers (county_step lib county m) = layers m @ [Included (geometry county) (NAME county)]) \<and>
   (create_ky6_map lib districts counties = Inr m' \<longrightarrow>
      filter is_included (layers m') =
        concat (map (\<lambda>c. case clippedIn lib (geometry (hd (ky6_district districts))) c of
                           None \<Rightarrow> []
                         | Some i \<Rightarrow> if is_empty_geom lib i then [] else [Included i (NAME c)])
                    (ky_counties counties)))"
proof
  show "\<not> is_empty_geom lib (geometry county) \<and> (\<forall>p. anchor lib (geometry county) \<noteq> Inr (Some p)) \<longrightarrow>
      layers (county_step lib county m) = layers m @ [Included (geometry county) (NAME county)]"
    by (auto simp: county_step_def Let_def split: sum.splits option.splits)
  show "create_ky6_map lib districts counties = Inr m' \<longrightarrow>
      filter is_included (layers m') =
        concat (map (\<lambda>c. case clippedIn lib (geometry (hd (ky6_district districts))) c of
                           None \<Rightarrow> []
                         | Some i \<Rightarrow> if is_empty_geom lib i then [] else [Included i (NAME c)])
                    (ky_counties counties))"
  proof
    assume "create_ky6_map lib districts counties = Inr m'"
    from run_layers [OF this] show "filter is_included (layers m') =
        concat (map (\<lambda>c. case clippedIn lib (geometry (hd (ky6_district districts))) c of
                           None \<Rightarrow> []
                         | Some i \<Rightarrow> if is_empty_geom lib i then [] else [Included i (NAME c)])
                    (ky_counties counties))"
      by (simp only: included_of_draw_order)
  qed
qed

text \<open>
  With a centroid that raises, the row of candidate C is drawn without a label, and the run
  on the example still has the included layers of A and of C.
\<close>

theorem unlabelled_candidate_is_still_drawn_witness:
  "\<not> is_empty_geom no_centroid_lib (rect 0 0 1 1) \<and>
   (\<forall>p. anchor no_centroid_lib (rect 0 0 1 1) \<noteq> Inr (Some p)) \<and>
   layers (county_step no_centroid_lib (a_county ''C'' (rect 0 0 1 1)) \<lparr>layers = [], printed = []\<rparr>) =
     [Included (rect 0 0 1 1) ''C''] \<and>
   (\<exists>m'. create_ky6_map no_centroid_lib example_districts example_counties = Inr m' \<and>
      filter is_included (layers m') =
        [Included (rect 1 0 2 2) ''A'', Included (rect 0 0 1 1) ''C''])"
proof -
  have g: "geometry (a_county ''C'' (rect 0 0 1 1)) = rect 0 0 1 1"
    and n: "NAME (a_county ''C'' (rect 0 0 1 1)) = ''C''"
    by (simp_all add: a_county_def)
  have h1: "\<not> is_empty_geom no_centroid_lib (rect 0 0 1 1)" by code_simp
  have "anchor no_centroid_lib (rect 0 0 1 1) = Inl (GEOSException ''no centroid'')" by code_simp
  then have h2: "\<forall>p. anchor no_centroid_lib (rect 0 0 1 1) \<noteq> Inr (Some p)" by simp
  have "case create_ky6_map no_centroid_lib example_districts example_counties of
          Inr m \<Rightarrow> True | Inl e \<Rightarrow> False"
    by code_simp
  then obtain m' where m': "create_ky6_map no_centroid_lib example_districts example_counties = Inr m'"
    by (auto split: sum.splits)
  have v: "concat (map (\<lambda>c. case clippedIn no_centroid_lib (geometry (hd (ky6_district example_districts))) c of
                           None \<Rightarrow> []
                         | Some i \<Rightarrow> if is_empty_geom no_centroid_lib i then [] else [Included i (NAME c)])
                    (ky_counties example_counties)) =
           [Included (rect 1 0 2 2) ''A'', Included (rect 0 0 1 1) ''C'']"
    by code_simp
  note t = unlabelled_candidate_is_still_drawn
    [of no_centroid_lib "a_county ''C'' (rect 0 0 1 1)" "\<lparr>layers = [], printed = []\<rparr>"
        example_districts example_counties m']
  from t h1 h2 have a: "layers (county_step no_centroid_lib (a_county ''C'' (rect 0 0 1 1))
      \<lparr>layers = [], printed = []\<rparr>) = [Included (rect 0 0 1 1) ''C'']"
    unfolding g n by simp
  from t m' v have b: "filter is_included (layers m') =
      [Included (rect 1 0 2 2) ''A'', Included (rect 0 0 1 1) ''C'']"
    by simp
  from h1 h2 a b m' show ?thesis by blast
qed





subsection \<open>What ends a run\<close>

text \<open>
  A clip that raises, or whose result is empty or invalid, only skips its candidate. The
  repair of line 97 is outside every handler, and so is the case of a table without rows.
\<close>

lemma clip_failure_skips_candidate:
  "intersection lib (geometry c) g = Inl e \<Longrightarrow>
   clip_loop lib g [c] = ([], [''Error processing '' @ NAME c @ '' County: '' @ message e])"
  by (simp add: clip_loop_def clip_step_def)

lemma difference_failure_skips_candidate:
  "difference lib (geometry c) g = Inl e \<Longrightarrow> layers (partial_step lib g c m) = layers m"
  by (simp add: partial_step_def)

lemma repair_failure_ends_run:
  "ky6_district districts \<noteq> [] \<Longrightarrow>
   fst (clip_loop lib (geometry (hd (ky6_district districts)))
          (intersecting_counties lib (geometry (hd (ky6_district districts))) (ky_counties counties))) = rows \<Longrightarrow>
   rows \<noteq> [] \<Longrightarrow> buffer_all lib rows = Inl e \<Longrightarrow>
   create_ky6_map lib districts counties = Inl (Uncaught e)"
  by (simp add: create_ky6_map_def Let_def repair_def)

lemma no_rows_ends_run:
  "ky6_district districts \<noteq> [] \<Longrightarrow>
   fst (clip_loop lib (geometry (hd (ky6_district districts)))
          (intersecting_counties lib (geometry (hd (ky6_district districts))) (ky_counties counties))) = [] \<Longrightarrow>
   create_ky6_map lib districts counties = Inl NoGeometryColumn"
  by (simp add: create_ky6_map_def Let_def repair_def)

lemma run_returns:
  "ky6_district districts \<noteq> [] \<Longrightarrow>
   repair lib (fst (clip_loop lib (geometry (hd (ky6_district districts)))
          (intersecting_counties lib (geometry (hd (ky6_district districts))) (ky_counties counties)))) = Inr rows \<Longrightarrow>
   \<exists>m. create_ky6_map lib districts counties = Inr m"
  by (simp add: create_ky6_map_def Let_def)

lemma missing_region_ends_run:
  "ky6_district districts = [] \<Longrightarrow> \<exists>codes. create_ky6_map lib districts counties = Inl (MissingRegion codes)"
  by (simp add: create_ky6_map_def Let_def)

text \<open>
  C6, at the failing input. The district is there, one county of the state lies away from
  it, no operation of the library fails: no row is clipped, and the run ends at line 94 or
  97 without a map.
\<close>

theorem run_aborts_when_no_county_is_clipped:
  "create_ky6_map grid_lib example_districts [a_county ''B'' (rect 5 5 6 6)] = Inl NoGeometryColumn"
  by code_simp

end
